theory Spec2Isabelle
  imports Main
begin

section \<open>The users service: five handlers over one table\<close>

text \<open>
  The program is \<^verbatim>\<open>main.py\<close>: five request handlers, each of which acquires a
  connection from a process-wide pool, runs one SQL statement on the \<^verbatim>\<open>users\<close>
  table and maps the result to a response. The handlers are embedded as functions on
  an explicit state (the database and the pool); the SQL statements are given the
  meaning they have on a table with a generated primary key.
\<close>

subsection \<open>Request payload\<close>

text \<open>
  \<^verbatim>\<open>class Post(BaseModel)\<close>: the validated payload of the write operations.
  \<^verbatim>\<open>Optional[str] = None\<close> is \<open>string option\<close>. A value of this type is a payload
  that passed validation; the handlers are never called with anything else.
\<close>

record Post =
  name :: string
  email :: string
  phone :: "string option"
  password :: string
  picture :: "string option"
  is_active :: bool

subsection \<open>Rows, dictionaries and the table\<close>

text \<open>One row of \<^verbatim>\<open>users\<close>, as the driver hands it over.\<close>

record users_row =
  row_id :: int
  row_name :: string
  row_email :: string
  row_phone :: "string option"
  row_password :: string

text \<open>The Python values that occur in a response: an int, a str, or None.\<close>

datatype pyval = PyInt int | PyStr string | PyNone

type_synonym Dict = "(string \<times> pyval) list"

text \<open>\<^verbatim>\<open>dict(record)\<close>: the columns of the row, by name, in column order.\<close>

definition dict :: "users_row \<Rightarrow> Dict" where
  "dict r =
     [(''id'', PyInt (row_id r)),
      (''name'', PyStr (row_name r)),
      (''email'', PyStr (row_email r)),
      (''phone'', (case row_phone r of None \<Rightarrow> PyNone | Some p \<Rightarrow> PyStr p)),
      (''password'', PyStr (row_password r))]"

text \<open>
  Modelled from the spec: the table \<^verbatim>\<open>users\<close>, whose declaration is not part of
  the source. It has the columns id (generated primary key), name, email, phone
  (nullable) and password, and none for picture or is_active. The rows are kept in
  scan order; \<open>users_id_seq\<close> is the next value the id generator hands out.
\<close>

record database =
  users :: "users_row list"
  users_id_seq :: int

subsection \<open>SQL statements\<close>

text \<open>
  A statement maps the database to its result set (or to the text of the error the
  database raises) and the database afterwards.
\<close>

type_synonym statement = "database \<Rightarrow> (string + users_row list) \<times> database"

text \<open>\<^verbatim>\<open>SELECT * FROM users\<close>\<close>

definition SELECT_users :: statement where
  "SELECT_users d = (Inr (users d), d)"

text \<open>\<^verbatim>\<open>SELECT * FROM users WHERE id = $1\<close>\<close>

definition SELECT_users_WHERE_id :: "int \<Rightarrow> statement" where
  "SELECT_users_WHERE_id i d = (Inr (filter (\<lambda>r. row_id r = i) (users d)), d)"

text \<open>
  Modelled from the spec: the id of a row is "generated by the database" and "assigned
  only by the storage layer on insert". The generator hands out its next value and
  advances; it does not go back, whether or not the row is stored then.
\<close>

definition nextval :: "database \<Rightarrow> int \<times> database" where
  "nextval d = (users_id_seq d, d\<lparr>users_id_seq := users_id_seq d + 1\<rparr>)"

text \<open>
  Modelled from the spec: id is the primary key ("id uniquely identifies a row"), so
  the table takes no row whose id a row already has.
\<close>

definition users_pkey_taken :: "int \<Rightarrow> database \<Rightarrow> bool" where
  "users_pkey_taken i d = (i \<in> set (map row_id (users d)))"

text \<open>
  \<^verbatim>\<open>INSERT INTO users (name, email, phone, password) VALUES ($1, $2, $3, $4) RETURNING *\<close>.
  The statement names no id, so the id is the generated one; the other four columns
  are the arguments. The result set is the stored row.
\<close>

definition INSERT_users :: "string \<Rightarrow> string \<Rightarrow> string option \<Rightarrow> string \<Rightarrow> statement" where
  "INSERT_users n e ph pw d =
     (case nextval d of
        (i, d1) \<Rightarrow>
          (let r = \<lparr>row_id = i, row_name = n, row_email = e, row_phone = ph, row_password = pw\<rparr>
           in if users_pkey_taken i d1
              then (Inl ''duplicate key value violates unique constraint users_pkey'', d1)
              else (Inr [r], d1\<lparr>users := users d1 @ [r]\<rparr>)))"

text \<open>\<^verbatim>\<open>DELETE FROM users WHERE id = $1\<close>\<close>

definition DELETE_users_WHERE_id :: "int \<Rightarrow> statement" where
  "DELETE_users_WHERE_id i d =
     (Inr [], d\<lparr>users := filter (\<lambda>r. row_id r \<noteq> i) (users d)\<rparr>)"

text \<open>
  \<^verbatim>\<open>UPDATE users SET name = $1, email = $2, phone = $3, password = $4 WHERE id = $5 RETURNING *\<close>
\<close>

definition UPDATE_users_WHERE_id ::
  "string \<Rightarrow> string \<Rightarrow> string option \<Rightarrow> string \<Rightarrow> int \<Rightarrow> statement" where
  "UPDATE_users_WHERE_id n e ph pw i d =
     (let set_cols = (\<lambda>r. if row_id r = i
                          then r\<lparr>row_name := n, row_email := e, row_phone := ph, row_password := pw\<rparr>
                          else r);
          rows = map set_cols (users d)
      in (Inr (filter (\<lambda>r. row_id r = i) rows), d\<lparr>users := rows\<rparr>))"

subsection \<open>The driver's calls on a connection\<close>

text \<open>
  Two things a request does can raise for reasons that lie outside the table, and
  whether they do is the environment's choice, made once per request.
  \<^item> \<open>AcquireRaises e\<close>: \<^verbatim>\<open>pool.acquire()\<close> raises. The global \<^verbatim>\<open>pool\<close> is still
    \<^verbatim>\<open>None\<close> (it is set only by \<^verbatim>\<open>startup\<close>), the pool is closed (after
    \<^verbatim>\<open>shutdown\<close>), or no connection to the database can be had.
  \<^item> \<open>CallRaises e\<close>: the call on the connection raises (the network, a constraint
    the source does not show, a value the column cannot hold), before the statement has
    had any effect.

  In both, \<open>e\<close> is the \<^verbatim>\<open>str(e)\<close> of the exception. \<open>None\<close> is a request that the
  environment does not disturb.
\<close>

datatype failure = AcquireRaises string | CallRaises string

type_synonym fault = "failure option"

text \<open>\<^verbatim>\<open>conn.fetch\<close>: all rows of the result.\<close>

definition fetch :: "fault \<Rightarrow> statement \<Rightarrow> database \<Rightarrow> (string + users_row list) \<times> database" where
  "fetch f stmt d = (case f of Some (CallRaises e) \<Rightarrow> (Inl e, d) | _ \<Rightarrow> stmt d)"

text \<open>\<^verbatim>\<open>conn.fetchrow\<close>: the first row of the result, or None.\<close>

definition fetchrow :: "fault \<Rightarrow> statement \<Rightarrow> database \<Rightarrow> (string + users_row option) \<times> database" where
  "fetchrow f stmt d =
     (case f of
        Some (CallRaises e) \<Rightarrow> (Inl e, d)
      | _ \<Rightarrow>
          (case stmt d of
             (Inl e, d') \<Rightarrow> (Inl e, d')
           | (Inr [], d') \<Rightarrow> (Inr None, d')
           | (Inr (r # rs), d') \<Rightarrow> (Inr (Some r), d')))"

text \<open>\<^verbatim>\<open>conn.execute\<close>: the result set is dropped.\<close>

definition execute :: "fault \<Rightarrow> statement \<Rightarrow> database \<Rightarrow> (string + unit) \<times> database" where
  "execute f stmt d =
     (case f of
        Some (CallRaises e) \<Rightarrow> (Inl e, d)
      | _ \<Rightarrow>
          (case stmt d of
             (Inl e, d') \<Rightarrow> (Inl e, d')
           | (Inr rows, d') \<Rightarrow> (Inr (), d')))"

subsection \<open>Responses and exceptions\<close>

text \<open>
  What a handler returns: a dict, a list of dicts, or an explicit
  \<^verbatim>\<open>JSONResponse(status_code, content)\<close>.
\<close>

datatype content =
    ReturnDict Dict
  | ReturnList "Dict list"
  | JSONResponse nat Dict

text \<open>
  What a handler raises: \<^verbatim>\<open>HTTPException(status_code, detail)\<close>, the exception
  of a call on the connection (with its text), the exception of \<^verbatim>\<open>pool.acquire()\<close>
  (with its text), or the \<^verbatim>\<open>TypeError\<close> of \<^verbatim>\<open>dict(None)\<close>.
\<close>

datatype exn =
    HTTPException nat string
  | DriverError string
  | PoolError string
  | TypeError

datatype outcome = Returned content | Raised exn

subsection \<open>The pool and scoped acquisition\<close>

text \<open>
  The pool: \<open>held\<close> counts the connections that are lent out. Waiting for a free
  connection is not represented.
\<close>

record Pool =
  held :: nat

text \<open>
  \<^verbatim>\<open>pool.acquire()\<close>, as \<^verbatim>\<open>async with\<close> enters it: it raises, and then nothing
  is lent, or it lends a connection.
\<close>

definition acquire :: "fault \<Rightarrow> Pool \<Rightarrow> string + Pool" where
  "acquire f p =
     (case f of
        Some (AcquireRaises e) \<Rightarrow> Inl e
      | _ \<Rightarrow> Inr (p\<lparr>held := held p + 1\<rparr>))"

text \<open>The connection goes back to the pool, as \<^verbatim>\<open>async with\<close> does on leaving.\<close>

definition release :: "Pool \<Rightarrow> Pool" where
  "release p = p\<lparr>held := held p - 1\<rparr>"

record world =
  db :: database
  pool :: Pool

text \<open>
  How the block under \<^verbatim>\<open>async with\<close> ends: it runs to its end having bound
  \<^verbatim>\<open>result\<close>, or it leaves early by \<^verbatim>\<open>return\<close> or \<^verbatim>\<open>raise\<close>.
\<close>

datatype 'a flow = Next 'a | Leave outcome

text \<open>
  \<^verbatim>\<open>async with pool.acquire() as conn: block\<close>. When the acquisition raises, the
  block is not entered and the exception goes on to whoever encloses the
  \<^verbatim>\<open>async with\<close>. Otherwise the block runs on the database while the connection is
  lent, and the connection goes back however the block ended. Besides the result, the
  definition reports the pool as it was while the block ran (\<open>None\<close> when the block
  did not run), so that what is held during the statement can be stated.
\<close>

definition async_with_acquire ::
  "fault \<Rightarrow> (database \<Rightarrow> 'a flow \<times> database) \<Rightarrow> world \<Rightarrow> ('a flow \<times> world) \<times> Pool option" where
  "async_with_acquire f block w =
     (case acquire f (pool w) of
        Inl e \<Rightarrow> ((Leave (Raised (PoolError e)), w), None)
      | Inr p1 \<Rightarrow>
          (let w1 = w\<lparr>pool := p1\<rparr>;
               (r, d) = block (db w1);
               w2 = w1\<lparr>db := d\<rparr>
           in ((r, w2\<lparr>pool := release (pool w2)\<rparr>), Some (pool w1))))"

subsection \<open>Formatting an int\<close>

text \<open>\<^verbatim>\<open>str(n)\<close> for an int, as the f-string \<^verbatim>\<open>f"{user_id}"\<close> produces it.\<close>

definition digit_char :: "nat \<Rightarrow> char" where
  "digit_char n = ''0123456789'' ! n"

function digits :: "nat \<Rightarrow> string" where
  "digits n = (if n < 10 then [digit_char n] else digits (n div 10) @ [digit_char (n mod 10)])"
  by pat_completeness auto
termination
  by (relation "measure (\<lambda>n. n)") auto

definition str :: "int \<Rightarrow> string" where
  "str i = (if i < 0 then CHR ''-'' # digits (nat (- i)) else digits (nat i))"

subsection \<open>The handlers\<close>

text \<open>
  Each handler is embedded twice: \<open>h_run\<close> is the handler as written, returning its
  outcome, the state afterwards and the pool as it was while the block ran; \<open>h\<close> is
  \<open>h_run\<close> without that last component.
\<close>

text \<open>\<^verbatim>\<open>@app.get("/users")\<close>\<close>

definition get_users_run :: "fault \<Rightarrow> world \<Rightarrow> (outcome \<times> world) \<times> Pool option" where
  "get_users_run f w =
     (case async_with_acquire f
             (\<lambda>d. case fetch f SELECT_users d of
                     (Inl e, d') \<Rightarrow> (Leave (Raised (DriverError e)), d')
                   | (Inr result, d') \<Rightarrow> (Next result, d')) w of
        ((Leave out, w'), p) \<Rightarrow> ((out, w'), p)
      | ((Next result, w'), p) \<Rightarrow> ((Returned (ReturnList (map dict result)), w'), p))"

definition get_users :: "fault \<Rightarrow> world \<Rightarrow> outcome \<times> world" where
  "get_users f w = fst (get_users_run f w)"

text \<open>\<^verbatim>\<open>@app.post("/users", status_code=status.HTTP_201_CREATED)\<close>\<close>

definition create_user_run :: "fault \<Rightarrow> Post \<Rightarrow> world \<Rightarrow> (outcome \<times> world) \<times> Pool option" where
  "create_user_run f post w =
     (case async_with_acquire f
             (\<lambda>d. case fetchrow f (INSERT_users (name post) (email post) (phone post) (password post)) d of
                     (Inl e, d') \<Rightarrow> (Leave (Returned (JSONResponse 500 [(''error'', PyStr e)])), d')
                   | (Inr result, d') \<Rightarrow> (Next result, d')) w of
        ((Leave out, w'), p) \<Rightarrow> ((out, w'), p)
      | ((Next None, w'), p) \<Rightarrow> ((Raised TypeError, w'), p)
      | ((Next (Some result), w'), p) \<Rightarrow> ((Returned (ReturnDict (dict result)), w'), p))"

definition create_user :: "fault \<Rightarrow> Post \<Rightarrow> world \<Rightarrow> outcome \<times> world" where
  "create_user f post w = fst (create_user_run f post w)"

text \<open>\<^verbatim>\<open>@app.get("/users/{user_id}")\<close>\<close>

definition get_user_run :: "fault \<Rightarrow> int \<Rightarrow> world \<Rightarrow> (outcome \<times> world) \<times> Pool option" where
  "get_user_run f user_id w =
     (case async_with_acquire f
             (\<lambda>d. case fetchrow f (SELECT_users_WHERE_id user_id) d of
                     (Inl e, d') \<Rightarrow> (Leave (Raised (DriverError e)), d')
                   | (Inr result, d') \<Rightarrow> (Next result, d')) w of
        ((Leave out, w'), p) \<Rightarrow> ((out, w'), p)
      | ((Next None, w'), p) \<Rightarrow>
          ((Raised (HTTPException 404 (''User with id:'' @ str user_id @ '' was not found'')), w'), p)
      | ((Next (Some result), w'), p) \<Rightarrow> ((Returned (ReturnDict (dict result)), w'), p))"

definition get_user :: "fault \<Rightarrow> int \<Rightarrow> world \<Rightarrow> outcome \<times> world" where
  "get_user f user_id w = fst (get_user_run f user_id w)"

text \<open>\<^verbatim>\<open>@app.delete("/users/{user_id}", status_code=status.HTTP_204_NO_CONTENT)\<close>\<close>

definition delete_user_run :: "fault \<Rightarrow> int \<Rightarrow> world \<Rightarrow> (outcome \<times> world) \<times> Pool option" where
  "delete_user_run f user_id w =
     (case async_with_acquire f
             (\<lambda>d. case execute f (DELETE_users_WHERE_id user_id) d of
                     (Inl e, d') \<Rightarrow>
                       (Leave (Raised (HTTPException 500 (''Failed to delete user: '' @ e))), d')
                   | (Inr u, d') \<Rightarrow> (Next u, d')) w of
        ((Leave out, w'), p) \<Rightarrow> ((out, w'), p)
      | ((Next u, w'), p) \<Rightarrow>
          ((Returned (ReturnDict [(''message'', PyStr ''User successfully deleted'')]), w'), p))"

definition delete_user :: "fault \<Rightarrow> int \<Rightarrow> world \<Rightarrow> outcome \<times> world" where
  "delete_user f user_id w = fst (delete_user_run f user_id w)"

text \<open>\<^verbatim>\<open>@app.put("/users/{user_id}")\<close>\<close>

definition update_user_run ::
  "fault \<Rightarrow> int \<Rightarrow> Post \<Rightarrow> world \<Rightarrow> (outcome \<times> world) \<times> Pool option" where
  "update_user_run f user_id post w =
     (case async_with_acquire f
             (\<lambda>d. case fetchrow f (UPDATE_users_WHERE_id (name post) (email post) (phone post)
                                      (password post) user_id) d of
                     (Inl e, d') \<Rightarrow> (Leave (Raised (DriverError e)), d')
                   | (Inr result, d') \<Rightarrow> (Next result, d')) w of
        ((Leave out, w'), p) \<Rightarrow> ((out, w'), p)
      | ((Next None, w'), p) \<Rightarrow>
          ((Raised (HTTPException 404 (''User with id:'' @ str user_id @ '' was not found'')), w'), p)
      | ((Next (Some result), w'), p) \<Rightarrow> ((Returned (ReturnDict (dict result)), w'), p))"

definition update_user :: "fault \<Rightarrow> int \<Rightarrow> Post \<Rightarrow> world \<Rightarrow> outcome \<times> world" where
  "update_user f user_id post w = fst (update_user_run f user_id post w)"

subsection \<open>The status the framework sends\<close>

text \<open>
  The routes, with the \<^verbatim>\<open>status_code\<close> of their decorators (200 when none is
  given). A returned value goes out with the route's status, a \<^verbatim>\<open>JSONResponse\<close>
  and an \<^verbatim>\<open>HTTPException\<close> with their own, and any other exception leaves the
  handler unhandled, which the server answers with 500.
\<close>

datatype route = GET_users | POST_users | GET_user | DELETE_user | PUT_user

fun status_code :: "route \<Rightarrow> nat" where
  "status_code GET_users = 200"
| "status_code POST_users = 201"
| "status_code GET_user = 200"
| "status_code DELETE_user = 204"
| "status_code PUT_user = 200"

fun http_status :: "route \<Rightarrow> outcome \<Rightarrow> nat" where
  "http_status rt (Returned (JSONResponse n c)) = n"
| "http_status rt (Returned v) = status_code rt"
| "http_status rt (Raised (HTTPException n detail)) = n"
| "http_status rt (Raised e) = 500"

text \<open>An exception that no handler caught and that is not an \<^verbatim>\<open>HTTPException\<close>.\<close>

fun unhandled :: "outcome \<Rightarrow> bool" where
  "unhandled (Raised (DriverError e)) = True"
| "unhandled (Raised (PoolError e)) = True"
| "unhandled (Raised TypeError) = True"
| "unhandled out = False"

subsection \<open>Requests served one after another\<close>

text \<open>
  The five routes as requests, and the router that hands each to its handler. Every
  handler issues a single statement, so a history of requests is a list, served in
  order; each request comes with the environment's choice for its driver call.
\<close>

datatype request =
    ListUsers
  | CreateUser Post
  | GetUser int
  | DeleteUser int
  | UpdateUser int Post

fun app :: "fault \<Rightarrow> request \<Rightarrow> world \<Rightarrow> outcome \<times> world" where
  "app f ListUsers w = get_users f w"
| "app f (CreateUser post) w = create_user f post w"
| "app f (GetUser user_id) w = get_user f user_id w"
| "app f (DeleteUser user_id) w = delete_user f user_id w"
| "app f (UpdateUser user_id post) w = update_user f user_id post w"

fun serve :: "(fault \<times> request) list \<Rightarrow> world \<Rightarrow> outcome list \<times> world" where
  "serve [] w = ([], w)"
| "serve ((f, rq) # rest) w =
     (case app f rq w of
        (out, w1) \<Rightarrow> (case serve rest w1 of (outs, w2) \<Rightarrow> (out # outs, w2)))"

subsection \<open>Notions used in the statements\<close>

text \<open>The row an insert of the payload stores under id \<open>i\<close>.\<close>

definition new_row :: "Post \<Rightarrow> int \<Rightarrow> users_row" where
  "new_row post i =
     \<lparr>row_id = i, row_name = name post, row_email = email post,
      row_phone = phone post, row_password = password post\<rparr>"

text \<open>What the update with the payload makes of a row, for the id \<open>i\<close>.\<close>

definition set_cols :: "Post \<Rightarrow> int \<Rightarrow> users_row \<Rightarrow> users_row" where
  "set_cols post i r =
     (if row_id r = i
      then r\<lparr>row_name := name post, row_email := email post,
             row_phone := phone post, row_password := password post\<rparr>
      else r)"

text \<open>The ids of the rows of the table, in scan order.\<close>

definition ids :: "world \<Rightarrow> int list" where
  "ids w = map row_id (users (db w))"

text \<open>The id a returned dict carries (\<^verbatim>\<open>d["id"]\<close>), if it has one.\<close>

definition id_of :: "Dict \<Rightarrow> int list" where
  "id_of d = (case map_of d ''id'' of Some (PyInt i) \<Rightarrow> [i] | _ \<Rightarrow> [])"

text \<open>Every id that a response shows to the caller.\<close>

fun ids_shown :: "outcome \<Rightarrow> int list" where
  "ids_shown (Returned (ReturnDict d)) = id_of d"
| "ids_shown (Returned (ReturnList ds)) = concat (map id_of ds)"
| "ids_shown out = []"

text \<open>
  The generator is ahead of the table: every stored id was handed out by it. This
  holds of the empty table and, as shown below, every handler keeps it.
\<close>

definition generator_ahead :: "world \<Rightarrow> bool" where
  "generator_ahead w = list_all (\<lambda>r. row_id r < users_id_seq (db w)) (users (db w))"

text \<open>
  A session of creations and deletions, none of which the environment disturbs. It
  keeps the ids that creations returned and the ids that deletions targeted, and is
  \<open>None\<close> as soon as a creation does not return a record or a deletion targets an
  id that was not created before or was targeted already.
\<close>

fun session ::
  "request list \<Rightarrow> int list \<Rightarrow> int list \<Rightarrow> world \<Rightarrow> (int list \<times> int list \<times> world) option" where
  "session [] created deleted w = Some (created, deleted, w)"
| "session (CreateUser post # rs) created deleted w =
     (case create_user None post w of
        (Returned (ReturnDict d), w') \<Rightarrow>
          (case id_of d of [i] \<Rightarrow> session rs (created @ [i]) deleted w' | _ \<Rightarrow> None)
      | _ \<Rightarrow> None)"
| "session (DeleteUser i # rs) created deleted w =
     (if i \<in> set created \<and> i \<notin> set deleted
      then (case delete_user None i w of
              (Returned v, w') \<Rightarrow> session rs created (deleted @ [i]) w'
            | _ \<Rightarrow> None)
      else None)"
| "session (rq # rs) created deleted w = None"

text \<open>
  The pool as the block of a request must find it: one connection more is lent than
  before the request, unless the acquisition raised, in which case no block runs.
\<close>

definition pool_in_block :: "fault \<Rightarrow> world \<Rightarrow> Pool option" where
  "pool_in_block f w =
     (case f of
        Some (AcquireRaises e) \<Rightarrow> None
      | _ \<Rightarrow> Some ((pool w)\<lparr>held := held (pool w) + 1\<rparr>))"

text \<open>Which requests create and which delete.\<close>

fun is_create :: "request \<Rightarrow> bool" where
  "is_create (CreateUser post) = True"
| "is_create rq = False"

fun is_delete :: "request \<Rightarrow> bool" where
  "is_delete (DeleteUser i) = True"
| "is_delete rq = False"

text \<open>
  What a session keeps true: the ids in the table are the created ids that no deletion
  targeted, in the order of their creation; the generator is ahead of every created
  id; and no id was created or targeted twice.
\<close>

definition session_inv :: "int list \<Rightarrow> int list \<Rightarrow> world \<Rightarrow> bool" where
  "session_inv created deleted w \<longleftrightarrow>
     ids w = filter (\<lambda>i. i \<notin> set deleted) created \<and>
     (\<forall>i\<in>set created. i < users_id_seq (db w)) \<and>
     distinct created \<and> distinct deleted \<and> set deleted \<subseteq> set created"

subsection \<open>Example payloads and states\<close>

definition ada :: Post where
  "ada = \<lparr>name = ''Ada'', email = ''ada@example.org'', phone = Some ''555-0100'',
          password = ''pw1'', picture = Some ''a.png'', is_active = False\<rparr>"

definition bob :: Post where
  "bob = \<lparr>name = ''Bob'', email = ''bob@example.org'', phone = None,
          password = ''pw2'', picture = None, is_active = True\<rparr>"

definition empty_world :: world where
  "empty_world = \<lparr>db = \<lparr>users = [], users_id_seq = 1\<rparr>, pool = \<lparr>held = 0\<rparr>\<rparr>"

definition world_ada :: world where
  "world_ada =
     \<lparr>db = \<lparr>users = [\<lparr>row_id = 1, row_name = ''Ada'', row_email = ''ada@example.org'',
                       row_phone = Some ''555-0100'', row_password = ''pw1''\<rparr>],
            users_id_seq = 2\<rparr>,
      pool = \<lparr>held = 0\<rparr>\<rparr>"

text \<open>A table in which the generator's next value is taken.\<close>

definition world_taken :: world where
  "world_taken =
     \<lparr>db = \<lparr>users = [\<lparr>row_id = 1, row_name = ''Ada'', row_email = ''ada@example.org'',
                       row_phone = Some ''555-0100'', row_password = ''pw1''\<rparr>],
            users_id_seq = 1\<rparr>,
      pool = \<lparr>held = 3\<rparr>\<rparr>"

section \<open>Handler equations\<close>

text \<open>
  What each handler computes, with the scoped acquisition and the driver call unfolded:
  once for a call that the environment lets run, once for a call that raises.
\<close>

lemma async_with_acquire_AcquireRaises:
  "async_with_acquire (Some (AcquireRaises e)) block w = ((Leave (Raised (PoolError e)), w), None)"
  by (simp add: async_with_acquire_def acquire_def)

lemma async_with_acquire_None:
  "async_with_acquire None block w =
     ((fst (block (db w)), w\<lparr>db := snd (block (db w))\<rparr>),
      Some ((pool w)\<lparr>held := held (pool w) + 1\<rparr>))"
  by (simp add: async_with_acquire_def acquire_def release_def Let_def split: prod.splits)

lemma async_with_acquire_CallRaises:
  "async_with_acquire (Some (CallRaises e)) block w =
     ((fst (block (db w)), w\<lparr>db := snd (block (db w))\<rparr>),
      Some ((pool w)\<lparr>held := held (pool w) + 1\<rparr>))"
  by (simp add: async_with_acquire_def acquire_def release_def Let_def split: prod.splits)

lemmas async_with_acquire_eqs =
  async_with_acquire_AcquireRaises async_with_acquire_None async_with_acquire_CallRaises

lemma get_users_None: "get_users None w = (Returned (ReturnList (map dict (users (db w)))), w)"
  by (simp add: get_users_def get_users_run_def async_with_acquire_eqs fetch_def SELECT_users_def)

lemma get_users_Some:
  "get_users (Some x) w =
     (Raised (case x of AcquireRaises e \<Rightarrow> PoolError e | CallRaises e \<Rightarrow> DriverError e), w)"
  by (cases x) (simp_all add: get_users_def get_users_run_def async_with_acquire_eqs fetch_def)

lemma create_user_Some:
  "create_user (Some x) post w =
     (case x of
        AcquireRaises e \<Rightarrow> Raised (PoolError e)
      | CallRaises e \<Rightarrow> Returned (JSONResponse 500 [(''error'', PyStr e)]), w)"
  by (cases x)
     (simp_all add: create_user_def create_user_run_def async_with_acquire_eqs fetchrow_def)

lemma create_user_None_fresh:
  "users_id_seq (db w) \<notin> set (ids w) \<Longrightarrow>
   create_user None post w =
     (Returned (ReturnDict (dict (new_row post (users_id_seq (db w))))),
      w\<lparr>db := \<lparr>users = users (db w) @ [new_row post (users_id_seq (db w))],
                users_id_seq = users_id_seq (db w) + 1\<rparr>\<rparr>)"
  by (simp add: create_user_def create_user_run_def async_with_acquire_eqs fetchrow_def INSERT_users_def Let_def
        nextval_def users_pkey_taken_def new_row_def ids_def)

lemma create_user_None_taken:
  "users_id_seq (db w) \<in> set (ids w) \<Longrightarrow>
   create_user None post w =
     (Returned (JSONResponse 500
        [(''error'', PyStr ''duplicate key value violates unique constraint users_pkey'')]),
      w\<lparr>db := (db w)\<lparr>users_id_seq := users_id_seq (db w) + 1\<rparr>\<rparr>)"
  by (simp add: create_user_def create_user_run_def async_with_acquire_eqs fetchrow_def INSERT_users_def Let_def
        nextval_def users_pkey_taken_def ids_def)

lemma get_user_Some:
  "get_user (Some x) i w =
     (Raised (case x of AcquireRaises e \<Rightarrow> PoolError e | CallRaises e \<Rightarrow> DriverError e), w)"
  by (cases x) (simp_all add: get_user_def get_user_run_def async_with_acquire_eqs fetchrow_def)

lemma get_user_None:
  "get_user None i w =
     (case filter (\<lambda>r. row_id r = i) (users (db w)) of
        [] \<Rightarrow> (Raised (HTTPException 404 (''User with id:'' @ str i @ '' was not found'')), w)
      | r # rs \<Rightarrow> (Returned (ReturnDict (dict r)), w))"
  by (simp add: get_user_def get_user_run_def async_with_acquire_eqs fetchrow_def SELECT_users_WHERE_id_def
        split: list.splits)

lemma delete_user_Some:
  "delete_user (Some x) i w =
     (Raised (case x of
                AcquireRaises e \<Rightarrow> PoolError e
              | CallRaises e \<Rightarrow> HTTPException 500 (''Failed to delete user: '' @ e)), w)"
  by (cases x) (simp_all add: delete_user_def delete_user_run_def async_with_acquire_eqs execute_def)

lemma delete_user_None:
  "delete_user None i w =
     (Returned (ReturnDict [(''message'', PyStr ''User successfully deleted'')]),
      w\<lparr>db := (db w)\<lparr>users := filter (\<lambda>r. row_id r \<noteq> i) (users (db w))\<rparr>\<rparr>)"
  by (simp add: delete_user_def delete_user_run_def async_with_acquire_eqs execute_def DELETE_users_WHERE_id_def)

lemma update_user_Some:
  "update_user (Some x) i post w =
     (Raised (case x of AcquireRaises e \<Rightarrow> PoolError e | CallRaises e \<Rightarrow> DriverError e), w)"
  by (cases x)
     (simp_all add: update_user_def update_user_run_def async_with_acquire_eqs fetchrow_def)

lemma update_user_None:
  "update_user None i post w =
     (case filter (\<lambda>r. row_id r = i) (map (set_cols post i) (users (db w))) of
        [] \<Rightarrow> (Raised (HTTPException 404 (''User with id:'' @ str i @ '' was not found'')),
               w\<lparr>db := (db w)\<lparr>users := map (set_cols post i) (users (db w))\<rparr>\<rparr>)
      | r # rs \<Rightarrow> (Returned (ReturnDict (dict r)),
               w\<lparr>db := (db w)\<lparr>users := map (set_cols post i) (users (db w))\<rparr>\<rparr>))"
  by (simp add: update_user_def update_user_run_def async_with_acquire_eqs fetchrow_def UPDATE_users_WHERE_id_def
        Let_def set_cols_def[abs_def] split: list.splits)

subsection \<open>The pool while the block runs\<close>

lemma async_with_acquire_in_block:
  "snd (async_with_acquire f block w) = pool_in_block f w"
proof (cases f)
  case None
  then show ?thesis
    by (simp add: async_with_acquire_None pool_in_block_def)
next
  case (Some x)
  then show ?thesis
    by (cases x) (simp_all add: async_with_acquire_eqs pool_in_block_def)
qed

lemma async_with_acquire_result:
  "async_with_acquire f block w = (rw, p) \<Longrightarrow> p = pool_in_block f w"
  using async_with_acquire_in_block [of f block w] by simp

lemma run_in_block:
  "snd (get_users_run f w) = pool_in_block f w"
  "snd (create_user_run f post w) = pool_in_block f w"
  "snd (get_user_run f user_id w) = pool_in_block f w"
  "snd (delete_user_run f user_id w) = pool_in_block f w"
  "snd (update_user_run f user_id post w) = pool_in_block f w"
  by (auto simp: get_users_run_def create_user_run_def get_user_run_def delete_user_run_def
        update_user_run_def
        dest: async_with_acquire_result
        split: prod.splits flow.splits option.splits)

subsection \<open>Rows by id\<close>

lemma filter_id_empty: "filter (\<lambda>r. row_id r = i) rows = [] \<longleftrightarrow> i \<notin> set (map row_id rows)"
  by (induction rows) auto

lemma row_id_set_cols: "row_id (set_cols post i r) = row_id r"
  by (simp add: set_cols_def)

lemma map_row_id_set_cols: "map row_id (map (set_cols post i) rows) = map row_id rows"
  by (simp add: row_id_set_cols)

lemma set_cols_hit: "row_id r = i \<Longrightarrow> set_cols post i r = new_row post i"
  by (simp add: set_cols_def new_row_def)

lemma set_cols_miss: "row_id r \<noteq> i \<Longrightarrow> set_cols post i r = r"
  by (simp add: set_cols_def)

lemma filter_set_cols_hit:
  "filter (\<lambda>r. row_id r = i) (map (set_cols post i) rows) =
   map (\<lambda>r. new_row post i) (filter (\<lambda>r. row_id r = i) rows)"
  by (induction rows) (auto simp: set_cols_def new_row_def)

lemma filter_set_cols_miss:
  "filter (\<lambda>r. row_id r \<noteq> i) (map (set_cols post i) rows) = filter (\<lambda>r. row_id r \<noteq> i) rows"
  by (induction rows) (auto simp: set_cols_def)

lemma update_user_None_found:
  "i \<in> set (ids w) \<Longrightarrow>
   update_user None i post w =
     (Returned (ReturnDict (dict (new_row post i))),
      w\<lparr>db := (db w)\<lparr>users := map (set_cols post i) (users (db w))\<rparr>\<rparr>)"
proof -
  assume "i \<in> set (ids w)"
  then obtain r rs where "filter (\<lambda>r. row_id r = i) (users (db w)) = r # rs"
    by (cases "filter (\<lambda>r. row_id r = i) (users (db w))") (auto simp: ids_def filter_id_empty)
  then show ?thesis
    by (simp add: update_user_None filter_set_cols_hit)
qed

lemma update_user_None_absent:
  "i \<notin> set (ids w) \<Longrightarrow>
   update_user None i post w =
     (Raised (HTTPException 404 (''User with id:'' @ str i @ '' was not found'')), w)"
proof -
  assume a: "i \<notin> set (ids w)"
  then have "\<forall>r\<in>set (users (db w)). set_cols post i r = r"
    by (auto simp: ids_def set_cols_def)
  then have m: "map (set_cols post i) (users (db w)) = users (db w)"
    by (simp add: map_idI)
  from a have "filter (\<lambda>r. row_id r = i) (users (db w)) = []"
    by (simp add: filter_id_empty ids_def)
  with m show ?thesis by (simp add: update_user_None)
qed

lemma id_of_dict: "id_of (dict r) = [row_id r]"
  by (simp add: id_of_def dict_def)

lemma concat_id_of_dict: "concat (map id_of (map dict rows)) = map row_id rows"
  by (induction rows) (simp_all add: id_of_dict)

lemma filter_set_cols_first:
  assumes "i \<in> set (map row_id rows)"
  shows "\<exists>rs. filter (\<lambda>r. row_id r = i) (map (set_cols post i) rows) = new_row post i # rs"
proof -
  from assms obtain r rs where "filter (\<lambda>r. row_id r = i) rows = r # rs"
    by (cases "filter (\<lambda>r. row_id r = i) rows") (auto simp: filter_id_empty)
  then show ?thesis by (simp add: filter_set_cols_hit)
qed

lemma dict_new_row:
  "dict (new_row post i) =
     [(''id'', PyInt i), (''name'', PyStr (name post)), (''email'', PyStr (email post)),
      (''phone'', (case phone post of None \<Rightarrow> PyNone | Some p \<Rightarrow> PyStr p)),
      (''password'', PyStr (password post))]"
  by (simp add: dict_def new_row_def)

section \<open>Invariants\<close>

subsection \<open>The generator stays ahead of the table\<close>

lemma generator_ahead_iff:
  "generator_ahead w \<longleftrightarrow> (\<forall>i\<in>set (ids w). i < users_id_seq (db w))"
  by (auto simp: generator_ahead_def ids_def list_all_iff)

lemma generator_ahead_fresh: "generator_ahead w \<Longrightarrow> users_id_seq (db w) \<notin> set (ids w)"
  by (auto simp: generator_ahead_iff)

lemma get_user_None_shown:
  "set (ids_shown (fst (get_user None i w))) \<subseteq> set (ids w)"
proof (cases "filter (\<lambda>r. row_id r = i) (users (db w))")
  case Nil
  then show ?thesis by (simp add: get_user_None)
next
  case (Cons r rs)
  then have "r \<in> set (filter (\<lambda>r. row_id r = i) (users (db w)))" by simp
  then have "row_id r \<in> set (ids w)" by (auto simp: ids_def)
  with Cons show ?thesis by (simp add: get_user_None id_of_dict)
qed

lemma app_generator:
  assumes "generator_ahead w"
  shows "generator_ahead (snd (app f rq w)) \<and>
         users_id_seq (db w) \<le> users_id_seq (db (snd (app f rq w))) \<and>
         (\<forall>i\<in>set (ids_shown (fst (app f rq w))). i < users_id_seq (db (snd (app f rq w))))"
proof (cases f)
  case (Some e)
  with assms show ?thesis
    by (cases rq)
       (simp_all add: get_users_Some create_user_Some get_user_Some delete_user_Some
          update_user_Some id_of_def split: failure.splits)
next
  case None
  show ?thesis
  proof (cases rq)
    case ListUsers
    with None assms show ?thesis
      by (auto simp: get_users_None id_of_dict generator_ahead_iff ids_def)
  next
    case (CreateUser post)
    have "users_id_seq (db w) \<notin> set (ids w)"
      using assms by (rule generator_ahead_fresh)
    with None CreateUser assms show ?thesis
      by (auto simp: create_user_None_fresh id_of_dict generator_ahead_iff ids_def new_row_def)
  next
    case (GetUser i)
    have "snd (get_user None i w) = w"
      by (simp add: get_user_None split: list.splits)
    with None GetUser assms get_user_None_shown [of i w] show ?thesis
      by (auto simp: generator_ahead_iff)
  next
    case (DeleteUser i)
    with None assms show ?thesis
      by (auto simp: delete_user_None generator_ahead_iff ids_def id_of_def)
  next
    case (UpdateUser i post)
    show ?thesis
    proof (cases "i \<in> set (ids w)")
      case True
      with None UpdateUser assms show ?thesis
        by (auto simp: update_user_None_found id_of_dict generator_ahead_iff ids_def
              new_row_def row_id_set_cols)
    next
      case False
      with None UpdateUser assms show ?thesis
        by (simp add: update_user_None_absent)
    qed
  qed
qed

lemma serve_generator:
  "generator_ahead w \<Longrightarrow>
   generator_ahead (snd (serve history w)) \<and>
   users_id_seq (db w) \<le> users_id_seq (db (snd (serve history w))) \<and>
   (\<forall>i\<in>set (concat (map ids_shown (fst (serve history w)))).
      i < users_id_seq (db (snd (serve history w))))"
proof (induction history arbitrary: w)
  case Nil
  then show ?case by simp
next
  case (Cons a history)
  obtain f rq where a: "a = (f, rq)" by (cases a)
  obtain out w1 where s1: "app f rq w = (out, w1)" by (cases "app f rq w")
  obtain outs w2 where s2: "serve history w1 = (outs, w2)" by (cases "serve history w1")
  from app_generator [OF Cons.prems, of f rq] s1
  have g1: "generator_ahead w1" and m1: "users_id_seq (db w) \<le> users_id_seq (db w1)"
    and b1: "\<forall>i\<in>set (ids_shown out). i < users_id_seq (db w1)"
    by simp_all
  from Cons.IH [OF g1] s2
  have g2: "generator_ahead w2" and m2: "users_id_seq (db w1) \<le> users_id_seq (db w2)"
    and b2: "\<forall>i\<in>set (concat (map ids_shown outs)). i < users_id_seq (db w2)"
    by simp_all
  from b1 m2 have "\<forall>i\<in>set (ids_shown out). i < users_id_seq (db w2)"
    by fastforce
  with g2 m1 m2 b2 show ?case
    by (auto simp: a s1 s2)
qed

lemma create_user_ignores_picture_is_active:
  "create_user f (post\<lparr>picture := pic, is_active := act\<rparr>) w = create_user f post w"
  by (simp add: create_user_def create_user_run_def)

subsection \<open>Sessions of creations and deletions\<close>

lemma length_filter_not_in:
  assumes "distinct xs" "distinct ys" "set ys \<subseteq> set xs"
  shows "length (filter (\<lambda>x. x \<notin> set ys) xs) = length xs - length ys"
proof -
  have "length (filter (\<lambda>x. x \<notin> set ys) xs) = card ({x. x \<notin> set ys} \<inter> set xs)"
    using assms(1) by (rule distinct_length_filter)
  also have "{x. x \<notin> set ys} \<inter> set xs = set xs - set ys"
    by auto
  also have "card (set xs - set ys) = card (set xs) - card (set ys)"
    using assms(3) by (simp add: card_Diff_subset)
  finally show ?thesis
    using assms(1,2) by (simp add: distinct_card)
qed

lemma session_inv_create:
  assumes "session_inv created deleted w"
  shows "create_user None post w =
           (Returned (ReturnDict (dict (new_row post (users_id_seq (db w))))),
            w\<lparr>db := \<lparr>users = users (db w) @ [new_row post (users_id_seq (db w))],
                      users_id_seq = users_id_seq (db w) + 1\<rparr>\<rparr>) \<and>
         session_inv (created @ [users_id_seq (db w)]) deleted
           (w\<lparr>db := \<lparr>users = users (db w) @ [new_row post (users_id_seq (db w))],
                      users_id_seq = users_id_seq (db w) + 1\<rparr>\<rparr>)"
proof -
  let ?i = "users_id_seq (db w)"
  from assms have notc: "?i \<notin> set created"
    by (auto simp: session_inv_def)
  with assms have notd: "?i \<notin> set deleted"
    by (auto simp: session_inv_def)
  from assms notc have "?i \<notin> set (ids w)"
    by (simp add: session_inv_def)
  then have c: "create_user None post w =
           (Returned (ReturnDict (dict (new_row post ?i))),
            w\<lparr>db := \<lparr>users = users (db w) @ [new_row post ?i], users_id_seq = ?i + 1\<rparr>\<rparr>)"
    by (rule create_user_None_fresh)
  have "ids (w\<lparr>db := \<lparr>users = users (db w) @ [new_row post ?i], users_id_seq = ?i + 1\<rparr>\<rparr>)
          = ids w @ [?i]"
    by (simp add: ids_def new_row_def)
  with assms notc notd
  have "session_inv (created @ [?i]) deleted
          (w\<lparr>db := \<lparr>users = users (db w) @ [new_row post ?i], users_id_seq = ?i + 1\<rparr>\<rparr>)"
    by (auto simp: session_inv_def)
  with c show ?thesis by simp
qed

lemma session_inv_delete:
  assumes "session_inv created deleted w" "i \<in> set created" "i \<notin> set deleted"
  shows "session_inv created (deleted @ [i])
           (w\<lparr>db := (db w)\<lparr>users := filter (\<lambda>r. row_id r \<noteq> i) (users (db w))\<rparr>\<rparr>)"
proof -
  have "ids (w\<lparr>db := (db w)\<lparr>users := filter (\<lambda>r. row_id r \<noteq> i) (users (db w))\<rparr>\<rparr>)
          = filter (\<lambda>j. j \<noteq> i) (ids w)"
    by (simp add: ids_def filter_map comp_def)
  also have "\<dots> = filter (\<lambda>j. j \<notin> set (deleted @ [i])) created"
    using assms(1) by (auto simp: session_inv_def intro: filter_cong)
  finally show ?thesis
    using assms by (simp add: session_inv_def)
qed

lemma session_keeps_inv:
  "session_inv created deleted w \<Longrightarrow>
   session rs created deleted w = Some (created', deleted', w') \<Longrightarrow>
   session_inv created' deleted' w' \<and>
   length created' = length created + length (filter is_create rs) \<and>
   length deleted' = length deleted + length (filter is_delete rs)"
proof (induction rs arbitrary: created deleted w)
  case Nil
  then show ?case by simp
next
  case (Cons rq rs)
  show ?case
  proof (cases rq)
    case (CreateUser post)
    let ?i = "users_id_seq (db w)"
    let ?w = "w\<lparr>db := \<lparr>users = users (db w) @ [new_row post ?i], users_id_seq = ?i + 1\<rparr>\<rparr>"
    from session_inv_create [OF Cons.prems(1), of post]
    have c: "create_user None post w = (Returned (ReturnDict (dict (new_row post ?i))), ?w)"
      and inv: "session_inv (created @ [?i]) deleted ?w"
      by simp_all
    from Cons.prems(2) have "session rs (created @ [?i]) deleted ?w = Some (created', deleted', w')"
      by (simp add: CreateUser c id_of_dict new_row_def)
    from Cons.IH [OF inv this] show ?thesis
      by (simp add: CreateUser)
  next
    case (DeleteUser i)
    let ?w = "w\<lparr>db := (db w)\<lparr>users := filter (\<lambda>r. row_id r \<noteq> i) (users (db w))\<rparr>\<rparr>"
    from Cons.prems(2) have ok: "i \<in> set created" "i \<notin> set deleted"
      by (auto simp: DeleteUser split: if_splits)
    with Cons.prems(2) have s: "session rs created (deleted @ [i]) ?w = Some (created', deleted', w')"
      by (simp add: DeleteUser delete_user_None)
    from Cons.IH [OF session_inv_delete [OF Cons.prems(1) ok] s] show ?thesis
      by (simp add: DeleteUser)
  next
    case ListUsers
    with Cons.prems(2) show ?thesis by simp
  next
    case (GetUser i)
    with Cons.prems(2) show ?thesis by simp
  next
    case (UpdateUser i post)
    with Cons.prems(2) show ?thesis by simp
  qed
qed

subsection \<open>At most one row per id\<close>

lemma distinct_ids_one_row:
  "distinct (map row_id rows) \<Longrightarrow> length (filter (\<lambda>r. row_id r = i) rows) \<le> 1"
proof (induction rows)
  case Nil
  then show ?case by simp
next
  case (Cons a rows)
  show ?case
  proof (cases "row_id a = i")
    case True
    with Cons.prems have "i \<notin> set (map row_id rows)" by auto
    then have "filter (\<lambda>r. row_id r = i) rows = []"
      using filter_id_empty [of i rows] by blast
    with True show ?thesis by simp
  next
    case False
    with Cons show ?thesis by simp
  qed
qed

lemma length_filter_others:
  assumes "distinct (map row_id rows)"
  shows "length rows \<le> length (filter (\<lambda>r. row_id r \<noteq> i) rows) + 1"
proof -
  have "length rows =
          length (filter (\<lambda>r. row_id r = i) rows) + length (filter (\<lambda>r. \<not> row_id r = i) rows)"
    by (simp only: sum_length_filter_compl)
  with distinct_ids_one_row [OF assms, of i] show ?thesis
    by simp
qed

section \<open>Creating\<close>

text \<open>
  C2. For every payload, POST /users whose driver call does not raise, on a table
  that the generator is ahead of and after any history of requests, returns (status
  201) the inserted row: name, email, phone and password are the submitted values and
  the id is the generator's next value, which no row of the table has, no row had at
  the start of the history and no response of the history showed. The row is appended
  to the table. The submitted picture and is_active do not reach the statement: the
  handler does the same for every value of them.
\<close>

theorem create_user_returns_fresh_row:
  assumes "generator_ahead w0" and "serve history w0 = (outs, w)"
  shows "create_user None post w =
           (Returned (ReturnDict
              [(''id'', PyInt (users_id_seq (db w))), (''name'', PyStr (name post)),
               (''email'', PyStr (email post)),
               (''phone'', (case phone post of None \<Rightarrow> PyNone | Some p \<Rightarrow> PyStr p)),
               (''password'', PyStr (password post))]),
            w\<lparr>db := \<lparr>users = users (db w) @ [new_row post (users_id_seq (db w))],
                      users_id_seq = users_id_seq (db w) + 1\<rparr>\<rparr>) \<and>
         http_status POST_users (fst (create_user None post w)) = 201 \<and>
         users_id_seq (db w) \<notin> set (ids w0) \<and>
         users_id_seq (db w) \<notin> set (concat (map ids_shown outs)) \<and>
         users_id_seq (db w) \<notin> set (ids w) \<and>
         create_user f (post\<lparr>picture := pic, is_active := act\<rparr>) w = create_user f post w"
proof -
  from serve_generator [OF assms(1), of history] assms(2)
  have g: "generator_ahead w" and m: "users_id_seq (db w0) \<le> users_id_seq (db w)"
    and b: "\<forall>i\<in>set (concat (map ids_shown outs)). i < users_id_seq (db w)"
    by simp_all
  have fresh: "users_id_seq (db w) \<notin> set (ids w)"
    using g by (rule generator_ahead_fresh)
  have old: "users_id_seq (db w) \<notin> set (ids w0)"
    using assms(1) m by (fastforce simp: generator_ahead_iff)
  have shown: "users_id_seq (db w) \<notin> set (concat (map ids_shown outs))"
    using b by blast
  have c: "create_user None post w =
      (Returned (ReturnDict (dict (new_row post (users_id_seq (db w))))),
       w\<lparr>db := \<lparr>users = users (db w) @ [new_row post (users_id_seq (db w))],
                 users_id_seq = users_id_seq (db w) + 1\<rparr>\<rparr>)"
    using fresh by (rule create_user_None_fresh)
  show ?thesis
    using fresh old shown
    by (simp add: c dict_new_row create_user_ignores_picture_is_active)
qed

theorem create_user_returns_fresh_row_witness:
  "generator_ahead empty_world \<and>
   serve [(None, CreateUser ada), (None, DeleteUser 1), (None, ListUsers)] empty_world =
     ([Returned (ReturnDict
         [(''id'', PyInt 1), (''name'', PyStr ''Ada''), (''email'', PyStr ''ada@example.org''),
          (''phone'', PyStr ''555-0100''), (''password'', PyStr ''pw1'')]),
       Returned (ReturnDict [(''message'', PyStr ''User successfully deleted'')]),
       Returned (ReturnList [])],
      \<lparr>db = \<lparr>users = [], users_id_seq = 2\<rparr>, pool = \<lparr>held = 0\<rparr>\<rparr>) \<and>
   fst (create_user None bob \<lparr>db = \<lparr>users = [], users_id_seq = 2\<rparr>, pool = \<lparr>held = 0\<rparr>\<rparr>) =
     Returned (ReturnDict
       [(''id'', PyInt 2), (''name'', PyStr ''Bob''), (''email'', PyStr ''bob@example.org''),
        (''phone'', PyNone), (''password'', PyStr ''pw2'')])"
proof -
  have g: "generator_ahead empty_world"
    by (simp add: generator_ahead_def empty_world_def)
  have s: "serve [(None, CreateUser ada), (None, DeleteUser 1), (None, ListUsers)] empty_world =
     ([Returned (ReturnDict
         [(''id'', PyInt 1), (''name'', PyStr ''Ada''), (''email'', PyStr ''ada@example.org''),
          (''phone'', PyStr ''555-0100''), (''password'', PyStr ''pw1'')]),
       Returned (ReturnDict [(''message'', PyStr ''User successfully deleted'')]),
       Returned (ReturnList [])],
      \<lparr>db = \<lparr>users = [], users_id_seq = 2\<rparr>, pool = \<lparr>held = 0\<rparr>\<rparr>)"
    by (simp add: empty_world_def ada_def create_user_None_fresh delete_user_None get_users_None
          ids_def dict_def new_row_def)
  show ?thesis
    using g s create_user_returns_fresh_row [OF g s, where post = bob and f = None and pic = None and act = True]
    by (simp add: bob_def)
qed

text \<open>
  C1. Whenever POST /users returns a record, that record has the payload's name,
  email, phone and password and an id (and no picture or is_active, which are never
  stored), and GET /users/{id} with that id, right after it, returns the very same
  record.
\<close>

theorem create_then_get_roundtrip:
  assumes "create_user f post w = (Returned (ReturnDict d), w1)"
  shows "\<exists>i. d = [(''id'', PyInt i), (''name'', PyStr (name post)),
                  (''email'', PyStr (email post)),
                  (''phone'', (case phone post of None \<Rightarrow> PyNone | Some p \<Rightarrow> PyStr p)),
                  (''password'', PyStr (password post))] \<and>
             get_user None i w1 = (Returned (ReturnDict d), w1)"
proof (cases f)
  case (Some e)
  with assms show ?thesis
    by (simp add: create_user_Some split: failure.splits)
next
  case None
  show ?thesis
  proof (cases "users_id_seq (db w) \<in> set (ids w)")
    case True
    with None assms show ?thesis
      by (simp add: create_user_None_taken)
  next
    case False
    let ?i = "users_id_seq (db w)"
    from False None assms have d: "d = dict (new_row post ?i)"
      and w1: "w1 = w\<lparr>db := \<lparr>users = users (db w) @ [new_row post ?i], users_id_seq = ?i + 1\<rparr>\<rparr>"
      by (simp_all add: create_user_None_fresh)
    from False have "filter (\<lambda>r. row_id r = ?i) (users (db w)) = []"
      by (simp add: filter_id_empty ids_def)
    then have "get_user None ?i w1 = (Returned (ReturnDict d), w1)"
      by (simp add: get_user_None w1 d new_row_def)
    with d show ?thesis
      by (auto simp: dict_new_row)
  qed
qed

theorem create_then_get_roundtrip_witness:
  "create_user None ada empty_world =
     (Returned (ReturnDict
        [(''id'', PyInt 1), (''name'', PyStr ''Ada''), (''email'', PyStr ''ada@example.org''),
         (''phone'', PyStr ''555-0100''), (''password'', PyStr ''pw1'')]), world_ada) \<and>
   get_user None 1 world_ada =
     (Returned (ReturnDict
        [(''id'', PyInt 1), (''name'', PyStr ''Ada''), (''email'', PyStr ''ada@example.org''),
         (''phone'', PyStr ''555-0100''), (''password'', PyStr ''pw1'')]), world_ada)"
proof -
  have c: "create_user None ada empty_world =
     (Returned (ReturnDict
        [(''id'', PyInt 1), (''name'', PyStr ''Ada''), (''email'', PyStr ''ada@example.org''),
         (''phone'', PyStr ''555-0100''), (''password'', PyStr ''pw1'')]), world_ada)"
    by (simp add: create_user_None_fresh ids_def empty_world_def world_ada_def ada_def
          dict_def new_row_def)
  from create_then_get_roundtrip [OF c] c show ?thesis
    by auto
qed

section \<open>Reads\<close>

text \<open>
  C5. For every integer id with no matching row in the users table, GET /users/{id}
  fails with status 404 and the message "User with id:{id} was not found", which
  contains that id; when a matching row exists, it is returned with status 200. Both
  are stated for a driver call that does not raise.
\<close>

theorem get_user_found_or_404:
  "(user_id \<notin> set (ids w) \<longrightarrow>
      get_user None user_id w =
        (Raised (HTTPException 404 (''User with id:'' @ str user_id @ '' was not found'')), w) \<and>
      http_status GET_user (fst (get_user None user_id w)) = 404) \<and>
   (user_id \<in> set (ids w) \<longrightarrow>
      (\<exists>r. r \<in> set (users (db w)) \<and> row_id r = user_id \<and>
           get_user None user_id w = (Returned (ReturnDict (dict r)), w)) \<and>
      http_status GET_user (fst (get_user None user_id w)) = 200)"
proof (cases "filter (\<lambda>r. row_id r = user_id) (users (db w))")
  case Nil
  then have "user_id \<notin> set (ids w)"
    by (simp add: filter_id_empty ids_def)
  with Nil show ?thesis
    by (simp add: get_user_None)
next
  case (Cons r rs)
  then have "r \<in> set (filter (\<lambda>r. row_id r = user_id) (users (db w)))"
    by simp
  then have r: "r \<in> set (users (db w)) \<and> row_id r = user_id"
    by simp
  then have "user_id \<in> set (ids w)"
    by (auto simp: ids_def)
  with r Cons show ?thesis
    by (auto simp: get_user_None)
qed

theorem get_user_found_or_404_witness:
  "42 \<notin> set (ids world_ada) \<and> 1 \<in> set (ids world_ada) \<and>
   get_user None 42 world_ada =
     (Raised (HTTPException 404 ''User with id:42 was not found''), world_ada) \<and>
   http_status GET_user (fst (get_user None 42 world_ada)) = 404 \<and>
   http_status GET_user (fst (get_user None 1 world_ada)) = 200"
  using get_user_found_or_404 [of 42 world_ada] get_user_found_or_404 [of 1 world_ada]
  by (simp add: ids_def world_ada_def str_def digit_char_def)

text \<open>
  C9. GET /users and GET /users/{id} are read-only: for every starting table, every
  id and every behaviour of the driver call, the database after the handler is the
  database before it, whatever the handler answered.
\<close>

theorem reads_leave_table_unchanged:
  "db (snd (get_users f w)) = db w \<and> db (snd (get_user f user_id w)) = db w"
proof (cases f)
  case None
  then show ?thesis
    by (simp add: get_users_None get_user_None split: list.splits)
next
  case (Some e)
  then show ?thesis
    by (simp add: get_users_Some get_user_Some)
qed

text \<open>
  C7. GET /users returns the dict of every row of the table, in scan order. In
  particular, after a session on the empty table that creates N users and deletes M
  of them, each deletion targeting an id that a creation returned before and that no
  deletion targeted before, the list has exactly N - M records, and their ids are
  pairwise different.
\<close>

theorem list_after_creates_and_deletes:
  assumes "users (db w0) = []" and "session rs [] [] w0 = Some (created, deleted, w)"
  shows "get_users None w = (Returned (ReturnList (map dict (users (db w)))), w) \<and>
         length (map dict (users (db w))) =
           length (filter is_create rs) - length (filter is_delete rs) \<and>
         length created = length (filter is_create rs) \<and>
         length deleted = length (filter is_delete rs) \<and>
         concat (map id_of (map dict (users (db w)))) = ids w \<and>
         distinct (ids w)"
proof -
  from assms(1) have "session_inv [] [] w0"
    by (simp add: session_inv_def ids_def)
  from session_keeps_inv [OF this assms(2)]
  have inv: "session_inv created deleted w"
    and n: "length created = length (filter is_create rs)"
    and m: "length deleted = length (filter is_delete rs)"
    by simp_all
  from inv have i: "ids w = filter (\<lambda>i. i \<notin> set deleted) created"
    and d: "distinct created" "distinct deleted" "set deleted \<subseteq> set created"
    by (simp_all add: session_inv_def)
  have "length (users (db w)) = length (ids w)"
    by (simp add: ids_def)
  also have "\<dots> = length created - length deleted"
    unfolding i using d by (rule length_filter_not_in)
  finally have len: "length (users (db w)) = length created - length deleted" .
  have dist: "distinct (ids w)"
    unfolding i using d(1) by simp
  have shown: "concat (map id_of (map dict (users (db w)))) = ids w"
    by (simp only: concat_id_of_dict ids_def)
  show ?thesis
    using len n m dist shown by (simp add: get_users_None)
qed

theorem list_after_creates_and_deletes_witness:
  "users (db empty_world) = [] \<and>
   session [CreateUser ada, CreateUser bob, DeleteUser 1, CreateUser ada] [] [] empty_world =
     Some ([1, 2, 3], [1],
       \<lparr>db = \<lparr>users = [new_row bob 2, new_row ada 3], users_id_seq = 4\<rparr>, pool = \<lparr>held = 0\<rparr>\<rparr>) \<and>
   fst (get_users None
       \<lparr>db = \<lparr>users = [new_row bob 2, new_row ada 3], users_id_seq = 4\<rparr>, pool = \<lparr>held = 0\<rparr>\<rparr>) =
     Returned (ReturnList [dict (new_row bob 2), dict (new_row ada 3)]) \<and>
   length [dict (new_row bob 2), dict (new_row ada 3)] = 3 - 1"
proof -
  have e: "users (db empty_world) = []"
    by (simp add: empty_world_def)
  have s: "session [CreateUser ada, CreateUser bob, DeleteUser 1, CreateUser ada] [] [] empty_world =
     Some ([1, 2, 3], [1],
       \<lparr>db = \<lparr>users = [new_row bob 2, new_row ada 3], users_id_seq = 4\<rparr>, pool = \<lparr>held = 0\<rparr>\<rparr>)"
    by (simp add: empty_world_def create_user_None_fresh delete_user_None ids_def id_of_dict
          new_row_def)
  from list_after_creates_and_deletes [OF e s] e s show ?thesis
    by simp
qed

section \<open>Deleting and updating\<close>

text \<open>
  C4. For every integer id, DELETE /users/{id} whose driver call does not raise
  returns the message "User successfully deleted" (with the route's status 204),
  whether or not a row had that id; and a GET /users/{id} for the same id right after
  it answers 404.
\<close>

theorem delete_user_reports_success:
  "fst (delete_user None user_id w) =
     Returned (ReturnDict [(''message'', PyStr ''User successfully deleted'')]) \<and>
   http_status DELETE_user (fst (delete_user None user_id w)) = 204 \<and>
   fst (get_user None user_id (snd (delete_user None user_id w))) =
     Raised (HTTPException 404 (''User with id:'' @ str user_id @ '' was not found'')) \<and>
   http_status GET_user (fst (get_user None user_id (snd (delete_user None user_id w)))) = 404"
  by (simp add: delete_user_None get_user_None)

text \<open>
  C3. PUT /users/{id} answers 404 exactly when the driver call does not raise and no
  row has the id. When a row has the id, the handler returns (status 200) the record
  with that id and with name, email, phone and password as in the payload (a payload
  without phone stores and returns None); the ids of the table are as before, and the
  row is what a GET of the id returns afterwards.
\<close>

theorem update_user_404_or_updated:
  "(http_status PUT_user (fst (update_user f user_id post w)) = 404
      \<longleftrightarrow> f = None \<and> user_id \<notin> set (ids w)) \<and>
   (user_id \<notin> set (ids w) \<longrightarrow>
      update_user None user_id post w =
        (Raised (HTTPException 404 (''User with id:'' @ str user_id @ '' was not found'')), w)) \<and>
   (user_id \<in> set (ids w) \<longrightarrow>
      fst (update_user None user_id post w) =
        Returned (ReturnDict
          [(''id'', PyInt user_id), (''name'', PyStr (name post)), (''email'', PyStr (email post)),
           (''phone'', (case phone post of None \<Rightarrow> PyNone | Some p \<Rightarrow> PyStr p)),
           (''password'', PyStr (password post))]) \<and>
      http_status PUT_user (fst (update_user None user_id post w)) = 200 \<and>
      ids (snd (update_user None user_id post w)) = ids w \<and>
      get_user None user_id (snd (update_user None user_id post w)) =
        (fst (update_user None user_id post w), snd (update_user None user_id post w)))"
proof (cases "user_id \<in> set (ids w)")
  case True
  have st: "http_status PUT_user (fst (update_user f user_id post w)) \<noteq> 404"
    using True
    by (cases f) (simp_all add: update_user_None_found update_user_Some split: failure.splits)
  obtain rs where g:
    "filter (\<lambda>r. row_id r = user_id) (map (set_cols post user_id) (users (db w)))
       = new_row post user_id # rs"
    using True filter_set_cols_first unfolding ids_def by blast
  have gu:
    "get_user None user_id (w\<lparr>db := (db w)\<lparr>users := map (set_cols post user_id) (users (db w))\<rparr>\<rparr>)
       = (Returned (ReturnDict (dict (new_row post user_id))),
          w\<lparr>db := (db w)\<lparr>users := map (set_cols post user_id) (users (db w))\<rparr>\<rparr>)"
    using g by (simp add: get_user_None)
  show ?thesis using True st gu
    by (simp add: update_user_None_found dict_new_row ids_def row_id_set_cols)
next
  case False
  then show ?thesis
    by (cases f)
       (simp_all add: update_user_None_absent update_user_Some split: failure.splits)
qed

theorem update_user_404_or_updated_witness:
  "7 \<notin> set (ids world_ada) \<and> 1 \<in> set (ids world_ada) \<and>
   update_user None 7 bob world_ada =
     (Raised (HTTPException 404 ''User with id:7 was not found''), world_ada) \<and>
   fst (update_user None 1 bob world_ada) =
     Returned (ReturnDict
       [(''id'', PyInt 1), (''name'', PyStr ''Bob''), (''email'', PyStr ''bob@example.org''),
        (''phone'', PyNone), (''password'', PyStr ''pw2'')]) \<and>
   http_status PUT_user (fst (update_user (Some (CallRaises ''connection lost'')) 7 bob world_ada)) \<noteq> 404"
  using update_user_404_or_updated [of None 7 bob world_ada]
        update_user_404_or_updated [of None 1 bob world_ada]
        update_user_404_or_updated [of "Some (CallRaises ''connection lost'')" 7 bob world_ada]
  by (simp add: ids_def world_ada_def bob_def str_def digit_char_def)

section \<open>What the writes leave alone\<close>

text \<open>
  C10. Whatever the driver call does: DELETE /users/{id} keeps every row with another
  id as it is and adds none, and with ids unique it removes at most one row;
  PUT /users/{id} keeps every row with another id as it is and the ids of the table
  as they are, and with ids unique at most one row has the id; POST /users, when it
  returns a record, has appended exactly the row of that record to the table, and
  otherwise leaves the rows as they were.
\<close>

theorem writes_touch_only_their_target:
  "filter (\<lambda>r. row_id r \<noteq> user_id) (users (db (snd (delete_user f user_id w)))) =
     filter (\<lambda>r. row_id r \<noteq> user_id) (users (db w)) \<and>
   set (users (db (snd (delete_user f user_id w)))) \<subseteq> set (users (db w)) \<and>
   (distinct (ids w) \<longrightarrow>
      length (users (db w)) \<le> length (users (db (snd (delete_user f user_id w)))) + 1) \<and>
   filter (\<lambda>r. row_id r \<noteq> user_id) (users (db (snd (update_user f user_id post w)))) =
     filter (\<lambda>r. row_id r \<noteq> user_id) (users (db w)) \<and>
   ids (snd (update_user f user_id post w)) = ids w \<and>
   (distinct (ids w) \<longrightarrow>
      length (filter (\<lambda>r. row_id r = user_id) (users (db w))) \<le> 1) \<and>
   (case fst (create_user f post w) of
      Returned (ReturnDict d) \<Rightarrow>
        (\<exists>r. dict r = d \<and> users (db (snd (create_user f post w))) = users (db w) @ [r])
    | out \<Rightarrow> users (db (snd (create_user f post w))) = users (db w))"
proof -
  have d1: "filter (\<lambda>r. row_id r \<noteq> user_id) (users (db (snd (delete_user f user_id w)))) =
     filter (\<lambda>r. row_id r \<noteq> user_id) (users (db w))"
    by (cases f) (simp_all add: delete_user_None delete_user_Some)
  have d2: "set (users (db (snd (delete_user f user_id w)))) \<subseteq> set (users (db w))"
    by (cases f) (auto simp: delete_user_None delete_user_Some)
  have d3: "distinct (ids w) \<longrightarrow>
      length (users (db w)) \<le> length (users (db (snd (delete_user f user_id w)))) + 1"
    using length_filter_others [of "users (db w)" user_id]
    by (cases f) (simp_all add: delete_user_None delete_user_Some ids_def)
  have u: "users (db (snd (update_user f user_id post w))) = users (db w) \<or>
           users (db (snd (update_user f user_id post w))) = map (set_cols post user_id) (users (db w))"
  proof (cases f)
    case None
    then show ?thesis
      by (cases "user_id \<in> set (ids w)")
         (simp_all add: update_user_None_found update_user_None_absent)
  next
    case (Some e)
    then show ?thesis by (simp add: update_user_Some)
  qed
  have u1: "filter (\<lambda>r. row_id r \<noteq> user_id) (users (db (snd (update_user f user_id post w)))) =
     filter (\<lambda>r. row_id r \<noteq> user_id) (users (db w))"
    using u by (auto simp only: filter_set_cols_miss)
  have u2: "ids (snd (update_user f user_id post w)) = ids w"
    using u by (auto simp only: ids_def map_row_id_set_cols)
  have u3: "distinct (ids w) \<longrightarrow>
      length (filter (\<lambda>r. row_id r = user_id) (users (db w))) \<le> 1"
    using distinct_ids_one_row [of "users (db w)" user_id] by (simp add: ids_def)
  have c: "(case fst (create_user f post w) of
      Returned (ReturnDict d) \<Rightarrow>
        (\<exists>r. dict r = d \<and> users (db (snd (create_user f post w))) = users (db w) @ [r])
    | out \<Rightarrow> users (db (snd (create_user f post w))) = users (db w))"
  proof (cases f)
    case None
    then show ?thesis
      by (cases "users_id_seq (db w) \<in> set (ids w)")
         (auto simp: create_user_None_fresh create_user_None_taken)
  next
    case (Some e)
    then show ?thesis by (simp add: create_user_Some split: failure.splits)
  qed
  from d1 d2 d3 u1 u2 u3 c show ?thesis
    by (intro conjI)
qed

theorem writes_touch_only_their_target_witness:
  "distinct (ids world_ada) \<and>
   users (db (snd (delete_user None 1 world_ada))) = [] \<and>
   users (db (snd (delete_user None 5 world_ada))) = users (db world_ada) \<and>
   users (db (snd (update_user None 5 bob world_ada))) = users (db world_ada) \<and>
   users (db (snd (create_user None bob world_ada))) = users (db world_ada) @ [new_row bob 2] \<and>
   users (db (snd (create_user (Some (CallRaises ''connection lost'')) bob world_ada))) = users (db world_ada)"
proof -
  have k: "distinct (ids world_ada)"
    by (simp add: ids_def world_ada_def)
  have c: "create_user None bob world_ada =
      (Returned (ReturnDict (dict (new_row bob 2))),
       world_ada\<lparr>db := \<lparr>users = users (db world_ada) @ [new_row bob 2], users_id_seq = 3\<rparr>\<rparr>)"
    by (simp add: create_user_None_fresh ids_def world_ada_def)
  from writes_touch_only_their_target [of 1 None world_ada bob]
       writes_touch_only_their_target [of 5 None world_ada bob]
       writes_touch_only_their_target [of 5 "Some (CallRaises ''connection lost'')" world_ada bob]
  show ?thesis
    using k c
    by (simp add: delete_user_None update_user_None_absent create_user_Some ids_def world_ada_def)
qed

section \<open>Failures of the database and the connection scope\<close>

text \<open>
  C6. When the database raises during the statement of create, whether the call on
  the connection raises with text \<open>e\<close> or the insert itself is rejected, the handler
  catches it and returns a response with status 500 whose content is the error text.
  When the call raises during delete, the handler catches it and answers 500 with
  "Failed to delete user: " followed by the error text. The list, get-one and update
  handlers catch nothing: the exception of the call leaves the handler unhandled, and
  the server answers 500.
\<close>

theorem database_errors_caught_or_propagated:
  "create_user (Some (CallRaises e)) post w =
     (Returned (JSONResponse 500 [(''error'', PyStr e)]), w) \<and>
   http_status POST_users (fst (create_user (Some (CallRaises e)) post w)) = 500 \<and>
   (users_id_seq (db w) \<in> set (ids w) \<longrightarrow>
      fst (create_user None post w) =
        Returned (JSONResponse 500
          [(''error'', PyStr ''duplicate key value violates unique constraint users_pkey'')]) \<and>
      http_status POST_users (fst (create_user None post w)) = 500 \<and>
      users (db (snd (create_user None post w))) = users (db w)) \<and>
   delete_user (Some (CallRaises e)) user_id w =
     (Raised (HTTPException 500 (''Failed to delete user: '' @ e)), w) \<and>
   http_status DELETE_user (fst (delete_user (Some (CallRaises e)) user_id w)) = 500 \<and>
   get_users (Some (CallRaises e)) w = (Raised (DriverError e), w) \<and>
   get_user (Some (CallRaises e)) user_id w = (Raised (DriverError e), w) \<and>
   update_user (Some (CallRaises e)) user_id post w = (Raised (DriverError e), w) \<and>
   unhandled (Raised (DriverError e)) \<and>
   http_status GET_users (Raised (DriverError e)) = 500 \<and>
   http_status GET_user (Raised (DriverError e)) = 500 \<and>
   http_status PUT_user (Raised (DriverError e)) = 500"
  by (simp add: get_users_Some create_user_Some get_user_Some delete_user_Some
        update_user_Some create_user_None_taken)

theorem database_errors_caught_or_propagated_witness:
  "users_id_seq (db world_taken) \<in> set (ids world_taken) \<and>
   fst (create_user None bob world_taken) =
     Returned (JSONResponse 500
       [(''error'', PyStr ''duplicate key value violates unique constraint users_pkey'')]) \<and>
   create_user (Some (CallRaises ''connection lost'')) bob world_taken =
     (Returned (JSONResponse 500 [(''error'', PyStr ''connection lost'')]), world_taken) \<and>
   delete_user (Some (CallRaises ''connection lost'')) 1 world_taken =
     (Raised (HTTPException 500 ''Failed to delete user: connection lost''), world_taken) \<and>
   get_user (Some (CallRaises ''connection lost'')) 1 world_taken =
     (Raised (DriverError ''connection lost''), world_taken)"
  using database_errors_caught_or_propagated
          [of "''connection lost''" bob world_taken 1]
  by (simp add: ids_def world_taken_def)

text \<open>
  C8. Every handler gives its connection back on every way out. For each of the five
  handlers and whatever the environment does: while the block with the statement runs,
  the pool has lent exactly one connection more than before the request; and when the
  handler ends, by returning a value, by returning the 500 response from inside the
  scope (create), or by raising, the pool holds exactly the connections it held before
  the request. When the acquisition itself raises, no block runs, nothing was lent,
  and the exception leaves the handler.
\<close>

theorem handlers_release_connection:
  "pool (snd (get_users f w)) = pool w \<and>
   pool (snd (create_user f post w)) = pool w \<and>
   pool (snd (get_user f user_id w)) = pool w \<and>
   pool (snd (delete_user f user_id w)) = pool w \<and>
   pool (snd (update_user f user_id post w)) = pool w \<and>
   snd (get_users_run f w) = pool_in_block f w \<and>
   snd (create_user_run f post w) = pool_in_block f w \<and>
   snd (get_user_run f user_id w) = pool_in_block f w \<and>
   snd (delete_user_run f user_id w) = pool_in_block f w \<and>
   snd (update_user_run f user_id post w) = pool_in_block f w \<and>
   get_users (Some (AcquireRaises e)) w = (Raised (PoolError e), w) \<and>
   create_user (Some (AcquireRaises e)) post w = (Raised (PoolError e), w) \<and>
   get_user (Some (AcquireRaises e)) user_id w = (Raised (PoolError e), w) \<and>
   delete_user (Some (AcquireRaises e)) user_id w = (Raised (PoolError e), w) \<and>
   update_user (Some (AcquireRaises e)) user_id post w = (Raised (PoolError e), w)"
proof -
  have after: "pool (snd (get_users f w)) = pool w \<and>
     pool (snd (create_user f post w)) = pool w \<and>
     pool (snd (get_user f user_id w)) = pool w \<and>
     pool (snd (delete_user f user_id w)) = pool w \<and>
     pool (snd (update_user f user_id post w)) = pool w"
  proof (cases f)
    case None
    have "pool (snd (create_user None post w)) = pool w"
      by (cases "users_id_seq (db w) \<in> set (ids w)")
         (simp_all add: create_user_None_fresh create_user_None_taken)
    moreover have "pool (snd (update_user None user_id post w)) = pool w"
      by (cases "user_id \<in> set (ids w)")
         (simp_all add: update_user_None_found update_user_None_absent)
    moreover have "pool (snd (get_user None user_id w)) = pool w"
      by (simp add: get_user_None split: list.splits)
    ultimately show ?thesis using None
      by (simp add: get_users_None delete_user_None)
  next
    case (Some x)
    then show ?thesis
      by (simp add: get_users_Some create_user_Some get_user_Some delete_user_Some
            update_user_Some)
  qed
  have during: "snd (get_users_run f w) = pool_in_block f w \<and>
     snd (create_user_run f post w) = pool_in_block f w \<and>
     snd (get_user_run f user_id w) = pool_in_block f w \<and>
     snd (delete_user_run f user_id w) = pool_in_block f w \<and>
     snd (update_user_run f user_id post w) = pool_in_block f w"
    by (simp add: run_in_block)
  have raised: "get_users (Some (AcquireRaises e)) w = (Raised (PoolError e), w) \<and>
     create_user (Some (AcquireRaises e)) post w = (Raised (PoolError e), w) \<and>
     get_user (Some (AcquireRaises e)) user_id w = (Raised (PoolError e), w) \<and>
     delete_user (Some (AcquireRaises e)) user_id w = (Raised (PoolError e), w) \<and>
     update_user (Some (AcquireRaises e)) user_id post w = (Raised (PoolError e), w)"
    by (simp add: get_users_Some create_user_Some get_user_Some delete_user_Some
          update_user_Some)
  from after during raised show ?thesis
    by (simp only: simp_thms)
qed

theorem handlers_release_connection_witness:
  "pool world_taken = \<lparr>held = 3\<rparr> \<and>
   snd (create_user_run None bob world_taken) = Some \<lparr>held = 4\<rparr> \<and>
   pool (snd (create_user None bob world_taken)) = \<lparr>held = 3\<rparr> \<and>
   snd (delete_user_run (Some (CallRaises ''connection lost'')) 1 world_taken) = Some \<lparr>held = 4\<rparr> \<and>
   pool (snd (delete_user (Some (CallRaises ''connection lost'')) 1 world_taken)) = \<lparr>held = 3\<rparr> \<and>
   snd (get_user_run (Some (AcquireRaises ''NoneType object has no attribute acquire'')) 1 world_taken) = None \<and>
   get_user (Some (AcquireRaises ''NoneType object has no attribute acquire'')) 1 world_taken =
     (Raised (PoolError ''NoneType object has no attribute acquire''), world_taken)"
  using handlers_release_connection [of None world_taken bob 1 "''NoneType object has no attribute acquire''"]
        handlers_release_connection
          [of "Some (CallRaises ''connection lost'')" world_taken bob 1 "''NoneType object has no attribute acquire''"]
        handlers_release_connection
          [of "Some (AcquireRaises ''NoneType object has no attribute acquire'')" world_taken bob 1 "''NoneType object has no attribute acquire''"]
  by (simp add: pool_in_block_def world_taken_def)

end
